theory Spec2Isabelle
  imports Main
begin

section \<open>Enumerations, errors and Python values\<close>

text \<open>
  The module \<open>sklearn_porter.enums\<close> is imported by the adapter but its members are
  only visible through their uses: \<open>Language.JAVA\<close>, \<open>Language.JS\<close>,
  \<open>Template.ATTACHED\<close>, \<open>Template.EXPORTED\<close> and \<open>Method.PREDICT\<close>. Every other
  member of an enumeration is kept as a named alternative.
\<close>

datatype Language = JAVA | JS | OtherLanguage string

datatype Template = ATTACHED | EXPORTED | OtherTemplate string

datatype Method = PREDICT | OtherMethod string

datatype request_field = LanguageField | TemplateField | MethodField

text \<open>
  Every way the two methods of the adapter can stop early. The first four are the error
  kinds the specification declares; the last three are the built-in Python exceptions
  that the statements of the source can raise.
\<close>

datatype error =
    NotFittedEstimatorError string
  | NotSupportedYetError string
  | CapabilityError request_field
  | TemplateNotFound string
  | AttributeError string
  | IndexError
  | TypeError

fun declared_error :: "error \<Rightarrow> bool" where
  "declared_error (NotFittedEstimatorError _) = True"
| "declared_error (NotSupportedYetError _) = True"
| "declared_error (CapabilityError _) = True"
| "declared_error (TemplateNotFound _) = True"
| "declared_error (AttributeError _) = False"
| "declared_error IndexError = False"
| "declared_error TypeError = False"

datatype pyval = PNone | PBool bool | PInt int | PStr string

type_synonym dict = "string \<rightharpoonup> pyval"

text \<open>A loaded template: \<open>render(**kwargs)\<close> maps the keyword arguments to text.\<close>

type_synonym template = "dict \<Rightarrow> string"

section \<open>The estimator and the adapter\<close>

text \<open>
  \<open>est.weights\<close> is a string or a callable; the constructor only compares it with the
  string \<open>'uniform'\<close>.
\<close>

datatype weights = WeightsStr string | WeightsCallable

text \<open>
  The scikit-learn estimator, with the attributes the adapter reads. The learned
  attributes \<open>classes_\<close>, \<open>_fit_X\<close> and \<open>_y\<close> exist only after fitting: \<open>None\<close> is a
  missing attribute, whose access raises \<open>AttributeError\<close>. The type \<open>'f\<close> is the type
  of floating-point numbers: the adapter never computes with them, it only hands them
  to the converter. \<open>_fit_X\<close> is the matrix of training examples, row by row.
\<close>

record 'f KNeighborsClassifierClass =
  est_classes :: "pyval list option"
  est_weights :: weights
  est_fit_X :: "'f list list option"
  est_y :: "int list option"
  est_n_neighbors :: int
  est_p :: int
  est_metric :: string

record MetaInfo =
  n_classes :: int
  n_templates :: int
  n_features :: int
  metric :: string

text \<open>The dictionary \<open>model_data\<close>; its keys are \<open>X\<close>, \<open>y\<close>, \<open>k\<close>, \<open>n\<close>, \<open>power\<close>, in this order.\<close>

record 'f ModelData =
  md_X :: "'f list list"
  md_y :: "int list"
  md_k :: int
  md_n :: int
  md_power :: int

record 'f KNeighborsClassifier =
  estimator :: "'f KNeighborsClassifierClass"
  estimator_name :: string
  placeholders :: dict
  meta_info :: MetaInfo
  model_data :: "'f ModelData"

text \<open>
  The value \<open>encoder.FLOAT_REPR\<close> of the module \<open>json\<close>, the one process-global variable
  the adapter assigns: either what the interpreter started with, or the function
  \<open>lambda o: converter(o)\<close> of line 140, whose \<open>converter\<close> is \<open>None\<close> when the caller
  gave none.
\<close>

datatype 'f float_repr = DefaultRepr | Hook "('f \<Rightarrow> string) option"

record 'f globals =
  FLOAT_REPR :: "'f float_repr"

text \<open>
  What the adapter uses and the source does not contain:
  \<^item> \<open>language_KEY\<close>, the attribute \<open>language.value.KEY\<close>, and \<open>method_value\<close>, the
    attribute \<open>method.value\<close>, of the enumerations;
  \<^item> \<open>load_templates\<close>, the method \<open>_load_templates\<close> of \<open>EstimatorBase\<close>: the template set
    of a language key, looked up by name;
  \<^item> \<open>base_estimator_name\<close> and \<open>base_placeholders\<close>, the attributes \<open>estimator_name\<close> and
    \<open>placeholders\<close> that \<open>EstimatorBase.__init__\<close> leaves on the adapter;
  \<^item> \<open>floatstr\<close>, the JSON encoder of the interpreter: the text it writes for a float
    under a given value of \<open>encoder.FLOAT_REPR\<close>. The encoder of the standard library
    writes \<open>float.__repr__\<close> of the float whatever that value is.
\<close>

record 'f env =
  language_KEY :: "Language \<Rightarrow> string"
  method_value :: "Method \<Rightarrow> string"
  load_templates :: "string \<Rightarrow> (string \<rightharpoonup> template)"
  base_estimator_name :: string
  base_placeholders :: dict
  floatstr :: "'f float_repr \<Rightarrow> 'f \<Rightarrow> error + string"

subsection \<open>The constructor\<close>

text \<open>
  \<open>__init__\<close>, lines 53 to 87, statement by statement: the base constructor, the check of
  \<open>classes_\<close>, the check of \<open>weights\<close>, then \<open>meta_info\<close> (\<open>len(est.classes_)\<close>,
  \<open>len(est._fit_X)\<close>, \<open>len(est._fit_X[0])\<close>, which raises \<open>IndexError\<close> on a matrix with no
  row) and \<open>model_data\<close>. The logging calls have no effect on the adapter and are left
  out. \<open>_y\<close> holds integers, which \<open>astype(int)\<close> leaves as they are.
\<close>

definition init ::
  "'f env \<Rightarrow> 'f KNeighborsClassifierClass \<Rightarrow> error + 'f KNeighborsClassifier" where
  "init env est =
    (case est_classes est of
       None \<Rightarrow> Inl (NotFittedEstimatorError (base_estimator_name env))
     | Some cs \<Rightarrow>
        if est_weights est \<noteq> WeightsStr ''uniform''
        then Inl (NotSupportedYetError ''Only `uniform` weights are supported.'')
        else
          (case est_fit_X est of
             None \<Rightarrow> Inl (AttributeError ''_fit_X'')
           | Some [] \<Rightarrow> Inl IndexError
           | Some (row # rows) \<Rightarrow>
              (case est_y est of
                 None \<Rightarrow> Inl (AttributeError ''_y'')
               | Some ys \<Rightarrow>
                  Inr \<lparr> estimator = est,
                        estimator_name = base_estimator_name env,
                        placeholders = base_placeholders env,
                        meta_info = \<lparr> n_classes = int (length cs),
                                      n_templates = int (length (row # rows)),
                                      n_features = int (length row),
                                      metric = est_metric est \<rparr>,
                        model_data = \<lparr> md_X = row # rows,
                                       md_y = ys,
                                       md_k = est_n_neighbors est,
                                       md_n = int (length cs),
                                       md_power = est_p est \<rparr> \<rparr>)))"

section \<open>The capability registry\<close>

text \<open>The class constants of lines 28 to 49.\<close>

definition DEFAULT_LANGUAGE :: Language where
  "DEFAULT_LANGUAGE = JAVA"

definition DEFAULT_TEMPLATE :: Template where
  "DEFAULT_TEMPLATE = ATTACHED"

definition DEFAULT_METHOD :: Method where
  "DEFAULT_METHOD = PREDICT"

definition SUPPORT :: "(Language \<times> (Template \<times> Method list) list) list" where
  "SUPPORT =
    [(JAVA, [(ATTACHED, [PREDICT]), (EXPORTED, [PREDICT])]),
     (JS, [(ATTACHED, [PREDICT]), (EXPORTED, [PREDICT])])]"

text \<open>
  Modelled from the spec: the method \<open>check\<close> of \<open>EstimatorBase\<close> is not in the source.
  An omitted field is replaced by the declared default; the resolved triple is looked
  up in the table; a language without an entry, a mode without an entry under that
  language, or a method outside the set found there is a capability error that names
  the field. The result is in the order in which line 113 unpacks it.
\<close>

definition check ::
  "Language option \<Rightarrow> Template option \<Rightarrow> Method option
    \<Rightarrow> error + (Method \<times> Language \<times> Template)" where
  "check language template method =
    (let l = (case language of None \<Rightarrow> DEFAULT_LANGUAGE | Some x \<Rightarrow> x);
         t = (case template of None \<Rightarrow> DEFAULT_TEMPLATE | Some x \<Rightarrow> x);
         m = (case method of None \<Rightarrow> DEFAULT_METHOD | Some x \<Rightarrow> x)
     in case map_of SUPPORT l of
          None \<Rightarrow> Inl (CapabilityError LanguageField)
        | Some modes \<Rightarrow>
           (case map_of modes t of
              None \<Rightarrow> Inl (CapabilityError TemplateField)
            | Some methods \<Rightarrow>
               if m \<in> set methods then Inr (m, l, t)
               else Inl (CapabilityError MethodField)))"

section \<open>Library functions of Python\<close>

text \<open>\<open>str\<close> on an integer: the decimal digits, with a minus sign below zero.\<close>

fun str_nat :: "nat \<Rightarrow> string" where
  "str_nat n =
    (if n < 10 then [''0123456789'' ! n]
     else str_nat (n div 10) @ [''0123456789'' ! (n mod 10)])"

declare str_nat.simps [simp del]

definition str_int :: "int \<Rightarrow> string" where
  "str_int i = (if i < 0 then CHR ''-'' # str_nat (nat (- i)) else str_nat (nat i))"

text \<open>\<open>sep.join(xs)\<close>.\<close>

fun join :: "string \<Rightarrow> string list \<Rightarrow> string" where
  "join sep [] = []"
| "join sep [s] = s"
| "join sep (s # t # ts) = s @ sep @ join sep (t # ts)"

definition bind_err :: "error + 'a \<Rightarrow> ('a \<Rightarrow> error + 'b) \<Rightarrow> error + 'b" where
  "bind_err r f = (case r of Inl e \<Rightarrow> Inl e | Inr x \<Rightarrow> f x)"

text \<open>
  A list built by calling a function on each element in turn; the first exception ends
  the construction.
\<close>

fun traverse :: "('a \<Rightarrow> error + 'b) \<Rightarrow> 'a list \<Rightarrow> error + 'b list" where
  "traverse f [] = Inr []"
| "traverse f (x # xs) =
    bind_err (f x) (\<lambda>y. bind_err (traverse f xs) (\<lambda>ys. Inr (y # ys)))"

text \<open>
  \<open>list(map(converter, v))\<close>: without a converter the call of \<open>None\<close> on the first element
  raises \<open>TypeError\<close>; on a row without elements nothing is called.
\<close>

definition convert_row :: "('f \<Rightarrow> string) option \<Rightarrow> 'f list \<Rightarrow> error + string list" where
  "convert_row converter v =
    (case converter of
       None \<Rightarrow> (if v = [] then Inr [] else Inl TypeError)
     | Some c \<Rightarrow> Inr (map c v))"

text \<open>\<open>tpls.get_template(name)\<close>.\<close>

definition get_template :: "(string \<rightharpoonup> template) \<Rightarrow> string \<Rightarrow> error + template" where
  "get_template tpls name =
    (case tpls name of None \<Rightarrow> Inl (TemplateNotFound name) | Some t \<Rightarrow> Inr t)"

subsection \<open>The JSON document\<close>

datatype json = JNum string | JArr "json list" | JObj "(string \<times> json) list"

text \<open>The text of a document under \<open>separators=(',', ':')\<close>.\<close>

fun encode :: "json \<Rightarrow> string" where
  "encode (JNum s) = s"
| "encode (JArr xs) = ''['' @ join '','' (map encode xs) @ '']''"
| "encode (JObj kvs) =
    ''{'' @ join '','' (map (\<lambda>(k, v). [CHR 0x22] @ k @ [CHR 0x22] @ '':'' @ encode v) kvs) @ ''}''"

text \<open>
  \<open>dumps(self.model_data, separators=(',', ':'))\<close>: the keys in the order of the
  dictionary, each float of \<open>X\<close> written by the encoder under the current
  \<open>encoder.FLOAT_REPR\<close>, each integer by its decimal digits.
\<close>

definition model_data_json :: "'f env \<Rightarrow> 'f globals \<Rightarrow> 'f ModelData \<Rightarrow> error + json" where
  "model_data_json env g md =
    bind_err
      (traverse
        (\<lambda>row. bind_err (traverse (floatstr env (FLOAT_REPR g)) row)
                 (\<lambda>ls. Inr (JArr (map JNum ls))))
        (md_X md))
      (\<lambda>rows. Inr (JObj
        [(''X'', JArr rows),
         (''y'', JArr (map (\<lambda>i. JNum (str_int i)) (md_y md))),
         (''k'', JNum (str_int (md_k md))),
         (''n'', JNum (str_int (md_n md))),
         (''power'', JNum (str_int (md_power md)))]))"

definition dumps :: "'f env \<Rightarrow> 'f globals \<Rightarrow> 'f ModelData \<Rightarrow> error + string" where
  "dumps env g md = bind_err (model_data_json env g md) (\<lambda>j. Inr (encode j))"

section \<open>Porting\<close>

record 'f request =
  req_language :: "Language option"
  req_template :: "Template option"
  req_to_json :: bool
  kw_class_name :: "pyval option"
  kw_method_name :: "pyval option"
  kw_converter :: "('f \<Rightarrow> string) option"

text \<open>\<open>Union[str, Tuple[str, str]]\<close>.\<close>

datatype port_result = Source string | ClassAndData string string

text \<open>\<open>plas.update(self.meta_info)\<close> adds these four entries.\<close>

definition meta_info_dict :: "MetaInfo \<Rightarrow> dict" where
  "meta_info_dict mi =
    [''n_classes'' \<mapsto> PInt (n_classes mi),
     ''n_templates'' \<mapsto> PInt (n_templates mi),
     ''n_features'' \<mapsto> PInt (n_features mi),
     ''metric'' \<mapsto> PStr (metric mi)]"

text \<open>
  Lines 144 to 183, the attached class. The keyword arguments of \<open>tpl_arr_2.render\<close>
  are evaluated from left to right: the rows first, then \<open>len(x_val)\<close>, then
  \<open>len(x_val[0])\<close>.
\<close>

definition attached_class ::
  "('f \<Rightarrow> string) option \<Rightarrow> 'f ModelData \<Rightarrow> dict \<Rightarrow> (string \<rightharpoonup> template)
    \<Rightarrow> error + string" where
  "attached_class converter md plas tpls =
    bind_err (get_template tpls ''int'') (\<lambda>t_int.
    bind_err (get_template tpls ''double'') (\<lambda>t_double.
    bind_err (get_template tpls ''arr[]'') (\<lambda>tpl_arr_1.
    bind_err (get_template tpls ''arr[][]'') (\<lambda>tpl_arr_2.
    bind_err (get_template tpls ''in_brackets'') (\<lambda>tpl_in_brackets.
      let tpl_int = t_int Map.empty;
          tpl_double = t_double Map.empty;
          x_val = md_X md
      in
    bind_err
      (traverse
        (\<lambda>v. bind_err (convert_row converter v)
               (\<lambda>cells. Inr (tpl_in_brackets [''value'' \<mapsto> PStr (join '', '' cells)])))
        x_val) (\<lambda>rows.
    bind_err (case x_val of [] \<Rightarrow> Inl IndexError | v # _ \<Rightarrow> Inr (int (length v))) (\<lambda>m.
      let x_str = tpl_arr_2
            [''type'' \<mapsto> PStr tpl_double, ''name'' \<mapsto> PStr ''X'',
             ''values'' \<mapsto> PStr (join '', '' rows),
             ''n'' \<mapsto> PInt (int (length x_val)), ''m'' \<mapsto> PInt m];
          y_val = map str_int (md_y md);
          y_str = tpl_arr_1
            [''type'' \<mapsto> PStr tpl_int, ''name'' \<mapsto> PStr ''y'',
             ''values'' \<mapsto> PStr (join '', '' y_val),
             ''n'' \<mapsto> PInt (int (length y_val))]
      in
    bind_err (get_template tpls ''attached.class'') (\<lambda>tpl_class.
      Inr (tpl_class
        (plas ++ [''X'' \<mapsto> PStr x_str, ''y'' \<mapsto> PStr y_str,
                  ''k'' \<mapsto> PInt (md_k md), ''n'' \<mapsto> PInt (md_n md),
                  ''power'' \<mapsto> PInt (md_power md)]))))))))))"

text \<open>
  \<open>port\<close>, lines 89 to 183. The adapter and the global variables go in and come out:
  \<open>plas\<close> is a deep copy, so its updates stay local; the one assignment outside the
  call is that of \<open>encoder.FLOAT_REPR\<close> in line 140.
\<close>

definition port ::
  "'f env \<Rightarrow> 'f KNeighborsClassifier \<Rightarrow> 'f request \<Rightarrow> 'f globals
    \<Rightarrow> (error + port_result) \<times> 'f KNeighborsClassifier \<times> 'f globals" where
  "port env self req g =
    (case check (req_language req) (req_template req) None of
       Inl e \<Rightarrow> (Inl e, self, g)
     | Inr (method, language, template) \<Rightarrow>
        let method_name = (case kw_method_name req of
                             None \<Rightarrow> PStr (method_value env method) | Some v \<Rightarrow> v);
            converter = kw_converter req;
            plas = placeholders self ++
                   [''class_name'' \<mapsto> (case kw_class_name req of
                                           None \<Rightarrow> PNone | Some v \<Rightarrow> v),
                    ''method_name'' \<mapsto> method_name,
                    ''to_json'' \<mapsto> PBool (req_to_json req)];
            plas = plas ++ meta_info_dict (meta_info self);
            tpls = load_templates env (language_KEY env language)
        in
          if template = EXPORTED then
            (case get_template tpls ''exported.class'' of
               Inl e \<Rightarrow> (Inl e, self, g)
             | Inr tpl_class \<Rightarrow>
                let out_class = tpl_class plas;
                    g' = g\<lparr>FLOAT_REPR := Hook converter\<rparr>
                in (case dumps env g' (model_data self) of
                      Inl e \<Rightarrow> (Inl e, self, g')
                    | Inr doc \<Rightarrow> (Inr (ClassAndData out_class doc), self, g')))
          else
            (case attached_class converter (model_data self) plas tpls of
               Inl e \<Rightarrow> (Inl e, self, g)
             | Inr out_class \<Rightarrow> (Inr (Source out_class), self, g)))"

text \<open>
  \<open>KNeighborsClassifier(estimator).port(language, template, to_json, **kwargs)\<close>: the
  adapter is built, then asked to port.
\<close>

definition port_estimator ::
  "'f env \<Rightarrow> 'f KNeighborsClassifierClass \<Rightarrow> 'f request \<Rightarrow> 'f globals
    \<Rightarrow> (error + port_result) \<times> 'f globals" where
  "port_estimator env est req g =
    (case init env est of
       Inl e \<Rightarrow> (Inl e, g)
     | Inr self \<Rightarrow> (case port env self req g of (r, _, g') \<Rightarrow> (r, g')))"

section \<open>Notions of the specification\<close>

text \<open>
  The support matrix as the specification describes it: the set of the triples
  (language, mode, method) that the table \<open>SUPPORT\<close> marks as implemented.
\<close>

definition support_entries :: "(Language \<times> Template \<times> Method) list" where
  "support_entries =
    concat (map (\<lambda>(l, modes). concat (map (\<lambda>(t, ms). map (\<lambda>m. (l, t, m)) ms) modes)) SUPPORT)"

text \<open>
  The inline literals as the specification describes them. A row: its converted values
  joined and wrapped by the bracket template. The matrix: the wrapped rows joined and
  given to the two-dimensional array template with the number of rows and of columns.
  The label vector: its elements joined and given to the one-dimensional array template
  with their number.
\<close>

definition row_literal :: "template \<Rightarrow> string list \<Rightarrow> string" where
  "row_literal t_in_brackets cells = t_in_brackets [''value'' \<mapsto> PStr (join '', '' cells)]"

definition matrix_literal ::
  "template \<Rightarrow> template \<Rightarrow> string \<Rightarrow> string list list \<Rightarrow> nat \<Rightarrow> string" where
  "matrix_literal t_in_brackets t_arr_2 ty rows columns =
    t_arr_2 [''type'' \<mapsto> PStr ty, ''name'' \<mapsto> PStr ''X'',
             ''values'' \<mapsto> PStr (join '', '' (map (row_literal t_in_brackets) rows)),
             ''n'' \<mapsto> PInt (int (length rows)), ''m'' \<mapsto> PInt (int columns)]"

definition vector_literal :: "template \<Rightarrow> string \<Rightarrow> string list \<Rightarrow> string" where
  "vector_literal t_arr_1 ty elements =
    t_arr_1 [''type'' \<mapsto> PStr ty, ''name'' \<mapsto> PStr ''y'',
             ''values'' \<mapsto> PStr (join '', '' elements),
             ''n'' \<mapsto> PInt (int (length elements))]"

text \<open>
  The placeholder mapping of lines 117 to 130: a copy of the adapter's placeholders,
  updated with the names of the request and the flag, then with the meta information.
\<close>

definition request_placeholders ::
  "'f env \<Rightarrow> 'f KNeighborsClassifier \<Rightarrow> Method \<Rightarrow> 'f request \<Rightarrow> dict" where
  "request_placeholders env self method req =
    (placeholders self ++
      [''class_name'' \<mapsto> (case kw_class_name req of None \<Rightarrow> PNone | Some v \<Rightarrow> v),
       ''method_name'' \<mapsto> (case kw_method_name req of
                               None \<Rightarrow> PStr (method_value env method) | Some v \<Rightarrow> v),
       ''to_json'' \<mapsto> PBool (req_to_json req)])
    ++ meta_info_dict (meta_info self)"


section \<open>A concrete setting\<close>

text \<open>
  A small template set in the style of the Java templates, the JSON encoder of the
  standard library, and a fitted estimator with three training examples of two
  features. Floats are represented by integers here: the integer \<open>3\<close> stands for the
  float \<open>3.0\<close>.
\<close>

definition placeholder_text :: "dict \<Rightarrow> string \<Rightarrow> string" where
  "placeholder_text d name =
    (case d name of
       None \<Rightarrow> []
     | Some PNone \<Rightarrow> ''None''
     | Some (PBool b) \<Rightarrow> (if b then ''True'' else ''False'')
     | Some (PInt i) \<Rightarrow> str_int i
     | Some (PStr s) \<Rightarrow> s)"

definition java_int :: template where
  "java_int d = ''int''"

definition java_double :: template where
  "java_double d = ''double''"

definition java_arr_1 :: template where
  "java_arr_1 d =
    placeholder_text d ''type'' @ ''[] '' @ placeholder_text d ''name''
      @ '' = {'' @ placeholder_text d ''values'' @ ''};''"

definition java_arr_2 :: template where
  "java_arr_2 d =
    placeholder_text d ''type'' @ ''[][] '' @ placeholder_text d ''name''
      @ '' = {'' @ placeholder_text d ''values'' @ ''};''"

definition java_in_brackets :: template where
  "java_in_brackets d = ''{'' @ placeholder_text d ''value'' @ ''}''"

definition java_attached_class :: template where
  "java_attached_class d =
    placeholder_text d ''X'' @ '' '' @ placeholder_text d ''y''
      @ '' k='' @ placeholder_text d ''k''
      @ '' n='' @ placeholder_text d ''n''
      @ '' power='' @ placeholder_text d ''power''"

definition java_exported_class :: template where
  "java_exported_class d = ''class '' @ placeholder_text d ''class_name''"

definition example_templates :: "string \<rightharpoonup> template" where
  "example_templates =
    [''int'' \<mapsto> java_int,
     ''double'' \<mapsto> java_double,
     ''arr[]'' \<mapsto> java_arr_1,
     ''arr[][]'' \<mapsto> java_arr_2,
     ''in_brackets'' \<mapsto> java_in_brackets,
     ''attached.class'' \<mapsto> java_attached_class,
     ''exported.class'' \<mapsto> java_exported_class]"

text \<open>
  \<open>json.dumps\<close> writes a float by \<open>float.__repr__\<close> and never reads \<open>encoder.FLOAT_REPR\<close>.
\<close>

definition library_floatstr :: "int float_repr \<Rightarrow> int \<Rightarrow> error + string" where
  "library_floatstr h x = Inr (str_int x @ ''.0'')"

definition example_env :: "int env" where
  "example_env =
    \<lparr> language_KEY = (\<lambda>l. case l of JAVA \<Rightarrow> ''java'' | JS \<Rightarrow> ''js'' | OtherLanguage s \<Rightarrow> s),
      method_value = (\<lambda>m. case m of PREDICT \<Rightarrow> ''predict'' | OtherMethod s \<Rightarrow> s),
      load_templates = (\<lambda>key. if key = ''java'' then example_templates else Map.empty),
      base_estimator_name = ''KNeighborsClassifier'',
      base_placeholders = Map.empty,
      floatstr = library_floatstr \<rparr>"

definition example_estimator :: "int KNeighborsClassifierClass" where
  "example_estimator =
    \<lparr> est_classes = Some [PInt 0, PInt 1],
      est_weights = WeightsStr ''uniform'',
      est_fit_X = Some [[1, 2], [3, 4], [5, 6]],
      est_y = Some [0, 1, 7],
      est_n_neighbors = 5, est_p = 2, est_metric = ''minkowski'' \<rparr>"

definition example_adapter :: "int KNeighborsClassifier" where
  "example_adapter =
    \<lparr> estimator = example_estimator,
      estimator_name = ''KNeighborsClassifier'',
      placeholders = Map.empty,
      meta_info = \<lparr> n_classes = 2, n_templates = 3, n_features = 2, metric = ''minkowski'' \<rparr>,
      model_data = \<lparr> md_X = [[1, 2], [3, 4], [5, 6]], md_y = [0, 1, 7],
                     md_k = 5, md_n = 2, md_power = 2 \<rparr> \<rparr>"

definition example_converter :: "int \<Rightarrow> string" where
  "example_converter x = str_int x @ ''.0f''"

text \<open>A converter that loses precision: it rounds down to an even number.\<close>

definition lossy_converter :: "int \<Rightarrow> string" where
  "lossy_converter x = str_int (x div 2 * 2) @ ''.0f''"

definition constant_converter :: "int \<Rightarrow> string" where
  "constant_converter x = ''Q''"

definition example_request :: "int request" where
  "example_request =
    \<lparr> req_language = None, req_template = None, req_to_json = False,
      kw_class_name = Some (PStr ''KNN''), kw_method_name = None,
      kw_converter = Some example_converter \<rparr>"

definition initial_globals :: "int globals" where
  "initial_globals = \<lparr> FLOAT_REPR = DefaultRepr \<rparr>"

section \<open>Auxiliary facts\<close>

lemma str_int_digit:
  "str_int 0 = ''0''" "str_int 1 = ''1''" "str_int 2 = ''2''" "str_int 3 = ''3''"
  "str_int 4 = ''4''" "str_int 5 = ''5''" "str_int 6 = ''6''" "str_int 7 = ''7''"
  by (simp_all add: str_int_def str_nat.simps)

lemma init_example: "init example_env example_estimator = Inr example_adapter"
  by (simp add: init_def example_env_def example_estimator_def example_adapter_def)

lemma check_cases:
  "check lo to mo =
    (let l = (case lo of None \<Rightarrow> JAVA | Some x \<Rightarrow> x);
         t = (case to of None \<Rightarrow> ATTACHED | Some x \<Rightarrow> x);
         m = (case mo of None \<Rightarrow> PREDICT | Some x \<Rightarrow> x)
     in if l \<noteq> JAVA \<and> l \<noteq> JS then Inl (CapabilityError LanguageField)
        else if t \<noteq> ATTACHED \<and> t \<noteq> EXPORTED then Inl (CapabilityError TemplateField)
        else if m \<noteq> PREDICT then Inl (CapabilityError MethodField)
        else Inr (m, l, t))"
  by (auto simp: check_def SUPPORT_def DEFAULT_LANGUAGE_def DEFAULT_TEMPLATE_def
      DEFAULT_METHOD_def Let_def split: option.splits)

lemma support_entries_iff:
  "(l, t, m) \<in> set support_entries \<longleftrightarrow>
    (l = JAVA \<or> l = JS) \<and> (t = ATTACHED \<or> t = EXPORTED) \<and> m = PREDICT"
  by (auto simp: support_entries_def SUPPORT_def)

lemma port_cases:
  "port env self req g =
    (case check (req_language req) (req_template req) None of
       Inl e \<Rightarrow> (Inl e, self, g)
     | Inr (m, l, t) \<Rightarrow>
        if t = EXPORTED then
          (case get_template (load_templates env (language_KEY env l)) ''exported.class'' of
             Inl e \<Rightarrow> (Inl e, self, g)
           | Inr tpl_class \<Rightarrow>
              (case dumps env (g\<lparr>FLOAT_REPR := Hook (kw_converter req)\<rparr>) (model_data self) of
                 Inl e \<Rightarrow> (Inl e, self, g\<lparr>FLOAT_REPR := Hook (kw_converter req)\<rparr>)
               | Inr doc \<Rightarrow>
                  (Inr (ClassAndData (tpl_class (request_placeholders env self m req)) doc),
                   self, g\<lparr>FLOAT_REPR := Hook (kw_converter req)\<rparr>)))
        else
          (case attached_class (kw_converter req) (model_data self)
                  (request_placeholders env self m req)
                  (load_templates env (language_KEY env l)) of
             Inl e \<Rightarrow> (Inl e, self, g)
           | Inr out_class \<Rightarrow> (Inr (Source out_class), self, g)))"
  by (simp add: port_def request_placeholders_def Let_def split: sum.splits prod.splits)

lemma traverse_cong_Inr: "(\<And>x. x \<in> set xs \<Longrightarrow> f x = Inr (h x)) \<Longrightarrow> traverse f xs = Inr (map h xs)"
  by (induction xs) (simp_all add: bind_err_def)

lemma render_rows:
  "traverse (\<lambda>v. bind_err (convert_row (Some c) v)
                   (\<lambda>cells. Inr (t [''value'' \<mapsto> PStr (join '', '' cells)]))) X
    = Inr (map (row_literal t) (map (map c) X))"
proof -
  have "traverse (\<lambda>v. bind_err (convert_row (Some c) v)
                   (\<lambda>cells. Inr (t [''value'' \<mapsto> PStr (join '', '' cells)]))) X
    = Inr (map (\<lambda>v. row_literal t (map c v)) X)"
    by (rule traverse_cong_Inr) (simp only: bind_err_def convert_row_def row_literal_def option.case sum.case)
  then show ?thesis by (simp add: comp_def)
qed

lemma attached_class_Some:
  assumes "tpls ''int'' = Some t_int" "tpls ''double'' = Some t_double"
    "tpls ''arr[]'' = Some t_arr_1" "tpls ''arr[][]'' = Some t_arr_2"
    "tpls ''in_brackets'' = Some t_in_brackets" "tpls ''attached.class'' = Some t_class"
    "md_X md = row # rows"
  shows "attached_class (Some c) md plas tpls =
    Inr (t_class (plas ++
      [''X'' \<mapsto> PStr (matrix_literal t_in_brackets t_arr_2 (t_double Map.empty)
                         (map (map c) (md_X md)) (length row)),
       ''y'' \<mapsto> PStr (vector_literal t_arr_1 (t_int Map.empty) (map str_int (md_y md))),
       ''k'' \<mapsto> PInt (md_k md), ''n'' \<mapsto> PInt (md_n md),
       ''power'' \<mapsto> PInt (md_power md)]))"
  unfolding attached_class_def get_template_def using assms
  by (simp add: bind_err_def render_rows [simplified bind_err_def] Let_def matrix_literal_def vector_literal_def)

lemma attached_class_None:
  assumes "tpls ''int'' = Some t_int" "tpls ''double'' = Some t_double"
    "tpls ''arr[]'' = Some t_arr_1" "tpls ''arr[][]'' = Some t_arr_2"
    "tpls ''in_brackets'' = Some t_in_brackets"
    "md_X md = row # rows" "row \<noteq> []"
  shows "attached_class None md plas tpls = Inl TypeError"
  unfolding attached_class_def get_template_def using assms
  by (simp add: bind_err_def convert_row_def Let_def)



lemmas java_templates =
  java_int_def java_double_def java_arr_1_def java_arr_2_def java_in_brackets_def
  java_attached_class_def java_exported_class_def

lemma example_templates_lookup:
  "example_templates ''int'' = Some java_int"
  "example_templates ''double'' = Some java_double"
  "example_templates ''arr[]'' = Some java_arr_1"
  "example_templates ''arr[][]'' = Some java_arr_2"
  "example_templates ''in_brackets'' = Some java_in_brackets"
  "example_templates ''attached.class'' = Some java_attached_class"
  "example_templates ''exported.class'' = Some java_exported_class"
  by (simp_all add: example_templates_def)

lemma example_attached_output:
  "port example_env example_adapter example_request initial_globals =
    (Inr (Source ''double[][] X = {{1.0f, 2.0f}, {3.0f, 4.0f}, {5.0f, 6.0f}}; int[] y = {0, 1, 7}; k=5 n=2 power=2''),
     example_adapter, initial_globals)"
  by (simp add: port_def check_cases example_request_def example_env_def example_adapter_def
      attached_class_def get_template_def example_templates_def bind_err_def convert_row_def
      placeholder_text_def example_converter_def meta_info_dict_def str_int_digit java_templates)

lemma example_exported_output:
  "port example_env example_adapter (example_request\<lparr>req_template := Some EXPORTED\<rparr>) initial_globals =
    (Inr (ClassAndData ''class KNN''
       (''{'' @ [CHR 0x22] @ ''X'' @ [CHR 0x22] @ '':[[1.0,2.0],[3.0,4.0],[5.0,6.0]],'' @ [CHR 0x22] @ ''y'' @ [CHR 0x22] @ '':[0,1,7],''
         @ [CHR 0x22] @ ''k'' @ [CHR 0x22] @ '':5,'' @ [CHR 0x22] @ ''n'' @ [CHR 0x22] @ '':2,'' @ [CHR 0x22] @ ''power'' @ [CHR 0x22] @ '':2}'')),
     example_adapter, \<lparr>FLOAT_REPR = Hook (Some example_converter)\<rparr>)"
  by (simp add: port_def check_cases example_request_def example_env_def example_adapter_def
      get_template_def example_templates_def bind_err_def dumps_def model_data_json_def
      placeholder_text_def example_converter_def meta_info_dict_def str_int_digit
      library_floatstr_def initial_globals_def java_templates)


lemma lossy_attached_output:
  "port example_env example_adapter (example_request\<lparr>kw_converter := Some lossy_converter\<rparr>)
      initial_globals =
    (Inr (Source ''double[][] X = {{0.0f, 2.0f}, {2.0f, 4.0f}, {4.0f, 6.0f}}; int[] y = {0, 1, 7}; k=5 n=2 power=2''),
     example_adapter, initial_globals)"
  by (simp add: port_def check_cases example_request_def example_env_def example_adapter_def
      attached_class_def get_template_def example_templates_def bind_err_def convert_row_def
      placeholder_text_def lossy_converter_def meta_info_dict_def str_int_digit java_templates)

lemma lossy_exported_output:
  "port example_env example_adapter
      (example_request\<lparr>kw_converter := Some lossy_converter, req_template := Some EXPORTED\<rparr>)
      initial_globals =
    (Inr (ClassAndData ''class KNN''
       (''{'' @ [CHR 0x22] @ ''X'' @ [CHR 0x22] @ '':[[1.0,2.0],[3.0,4.0],[5.0,6.0]],'' @ [CHR 0x22] @ ''y'' @ [CHR 0x22] @ '':[0,1,7],''
         @ [CHR 0x22] @ ''k'' @ [CHR 0x22] @ '':5,'' @ [CHR 0x22] @ ''n'' @ [CHR 0x22] @ '':2,'' @ [CHR 0x22] @ ''power'' @ [CHR 0x22] @ '':2}'')),
     example_adapter, \<lparr>FLOAT_REPR = Hook (Some lossy_converter)\<rparr>)"
  by (simp add: port_def check_cases example_request_def example_env_def example_adapter_def
      get_template_def example_templates_def bind_err_def dumps_def model_data_json_def
      placeholder_text_def meta_info_dict_def str_int_digit
      library_floatstr_def initial_globals_def java_templates)

lemma init_Inr:
  "init env est = Inr self \<Longrightarrow>
    \<exists>row rows. md_X (model_data self) = row # rows \<and> n_features (meta_info self) = int (length row)"
  by (auto simp: init_def split: option.splits if_splits list.splits)

lemma port_attached_Some:
  assumes "check (req_language req) (req_template req) None = Inr (m, l, ATTACHED)"
    and "kw_converter req = Some c"
    and "md_X (model_data self) = row # rows"
    and "load_templates env (language_KEY env l) = tpls"
    and "tpls ''int'' = Some t_int" "tpls ''double'' = Some t_double"
    and "tpls ''arr[]'' = Some t_arr_1" "tpls ''arr[][]'' = Some t_arr_2"
    and "tpls ''in_brackets'' = Some t_in_brackets" "tpls ''attached.class'' = Some t_class"
  shows "port env self req g =
    (Inr (Source (t_class (request_placeholders env self m req ++
      [''X'' \<mapsto> PStr (matrix_literal t_in_brackets t_arr_2 (t_double Map.empty)
                         (map (map c) (md_X (model_data self))) (length row)),
       ''y'' \<mapsto> PStr (vector_literal t_arr_1 (t_int Map.empty)
                         (map str_int (md_y (model_data self)))),
       ''k'' \<mapsto> PInt (md_k (model_data self)), ''n'' \<mapsto> PInt (md_n (model_data self)),
       ''power'' \<mapsto> PInt (md_power (model_data self))]))), self, g)"
  using assms(1,2,4)
  by (simp add: port_cases attached_class_Some [OF assms(5-10) assms(3)])

lemma dumps_load_templates: "dumps (env\<lparr>load_templates := lt\<rparr>) g md = dumps env g md"
  by (simp add: dumps_def model_data_json_def)

lemma request_placeholders_load_templates:
  "request_placeholders (env\<lparr>load_templates := lt\<rparr>) self m req
    = request_placeholders env self m req"
  by (simp add: request_placeholders_def split: option.splits)


section \<open>The constructor: fitted state, configuration, meta information\<close>

text \<open>
  C6. For a fitted estimator (learned attributes present, at least one training example,
  uniform weights) the constructor returns an adapter, and its meta information holds
  the number of class labels as \<open>n_classes\<close>, the number of rows of the training matrix
  as \<open>n_templates\<close> and the number of columns of the first row as \<open>n_features\<close>.
\<close>

theorem meta_info_counts:
  "est_classes est = Some cs \<Longrightarrow> est_weights est = WeightsStr ''uniform'' \<Longrightarrow>
   est_fit_X est = Some (row # rows) \<Longrightarrow> est_y est = Some ys \<Longrightarrow>
   \<exists>self. init env est = Inr self
     \<and> n_classes (meta_info self) = int (length cs)
     \<and> n_templates (meta_info self) = int (length (row # rows))
     \<and> n_features (meta_info self) = int (length row)"
  by (simp add: init_def)

theorem meta_info_counts_witness:
  "est_classes example_estimator = Some [PInt 0, PInt 1]
   \<and> est_weights example_estimator = WeightsStr ''uniform''
   \<and> est_fit_X example_estimator = Some ([1, 2] # [[3, 4], [5, 6]])
   \<and> est_y example_estimator = Some [0, 1, 7]
   \<and> (\<exists>self. init example_env example_estimator = Inr self
     \<and> n_classes (meta_info self) = 2
     \<and> n_templates (meta_info self) = 3
     \<and> n_features (meta_info self) = 2)"
  using meta_info_counts [of example_estimator "[PInt 0, PInt 1]" "[1, 2]" "[[3, 4], [5, 6]]"
      "[0, 1, 7]" example_env]
  by (simp add: example_estimator_def)

text \<open>
  C2. An estimator without the attribute \<open>classes_\<close> makes the constructor fail with
  \<open>NotFittedEstimatorError\<close>, whatever its weights and its other learned attributes are
  (present, missing or empty: nothing is extracted from them before the failure), and
  building the adapter and porting fails with the same error, whatever the template
  loader is and with the global variables as they were: no template is loaded first.
\<close>

theorem unfitted_fails_first:
  "est_classes est = None \<Longrightarrow>
    init env (est\<lparr>est_weights := w, est_fit_X := fx, est_y := fy\<rparr>)
      = Inl (NotFittedEstimatorError (base_estimator_name env))
    \<and> port_estimator (env\<lparr>load_templates := lt\<rparr>)
         (est\<lparr>est_weights := w, est_fit_X := fx, est_y := fy\<rparr>) req g
      = (Inl (NotFittedEstimatorError (base_estimator_name env)), g)"
  by (simp add: init_def port_estimator_def)

theorem unfitted_fails_first_witness:
  "est_classes (example_estimator\<lparr>est_classes := None\<rparr>) = None
   \<and> init example_env
        (example_estimator\<lparr>est_classes := None, est_weights := WeightsStr ''distance'',
           est_fit_X := None, est_y := None\<rparr>)
      = Inl (NotFittedEstimatorError ''KNeighborsClassifier'')
   \<and> port_estimator (example_env\<lparr>load_templates := (\<lambda>key. Map.empty)\<rparr>)
        (example_estimator\<lparr>est_classes := None, est_weights := WeightsStr ''distance'',
           est_fit_X := None, est_y := None\<rparr>) example_request initial_globals
      = (Inl (NotFittedEstimatorError ''KNeighborsClassifier''), initial_globals)"
  using unfitted_fails_first [where est = "example_estimator\<lparr>est_classes := None\<rparr>"
      and env = example_env and w = "WeightsStr ''distance''" and fx = None and fy = None
      and lt = "\<lambda>key. Map.empty" and req = example_request and g = initial_globals]
  by (simp add: example_env_def)

text \<open>
  C3. A fitted estimator whose weights are not the string \<open>uniform\<close> makes the constructor
  fail with \<open>NotSupportedYetError\<close> and the message that names the option, whatever the
  training matrix and the labels are (present, missing or empty): nothing is extracted
  from them before the failure.
\<close>

theorem not_uniform_fails_first:
  "est_classes est = Some cs \<Longrightarrow> est_weights est \<noteq> WeightsStr ''uniform'' \<Longrightarrow>
    init env (est\<lparr>est_fit_X := fx, est_y := fy\<rparr>)
      = Inl (NotSupportedYetError ''Only `uniform` weights are supported.'')"
  by (simp add: init_def)

theorem not_uniform_fails_first_witness:
  "est_classes (example_estimator\<lparr>est_weights := WeightsStr ''distance''\<rparr>)
      = Some [PInt 0, PInt 1]
   \<and> est_weights (example_estimator\<lparr>est_weights := WeightsStr ''distance''\<rparr>)
      \<noteq> WeightsStr ''uniform''
   \<and> init example_env
        (example_estimator\<lparr>est_weights := WeightsStr ''distance'', est_fit_X := None,
           est_y := None\<rparr>)
      = Inl (NotSupportedYetError ''Only `uniform` weights are supported.'')"
  using not_uniform_fails_first [of "example_estimator\<lparr>est_weights := WeightsStr ''distance''\<rparr>"
      "[PInt 0, PInt 1]" example_env None None]
  by (simp add: example_estimator_def)

section \<open>Validation of the request\<close>

text \<open>
  C1. A port call replaces an omitted language by Java and an omitted template mode by
  Attached, and always asks for the default method Predict. The resolved triple is
  looked up in \<open>SUPPORT\<close>: \<open>check\<close> returns exactly that triple when it is an entry of
  the support matrix, and otherwise a capability error that names the language when
  the language has no entry and the template mode when the mode has none under that
  language; a method outside the set found for a supported pair is a capability error
  that names the method. When the lookup fails, \<open>port\<close> fails with that error and leaves
  the adapter and the global variables as they were. When \<open>port\<close> returns an output, the
  resolved triple is an entry of the matrix, the output is a pair exactly when the
  resolved mode is Exported, and only the template set of the resolved language is
  consulted: replacing the template sets of all other languages changes nothing.
\<close>

theorem port_validates_request:
  assumes "l = (case req_language req of None \<Rightarrow> DEFAULT_LANGUAGE | Some x \<Rightarrow> x)"
    and "t = (case req_template req of None \<Rightarrow> DEFAULT_TEMPLATE | Some x \<Rightarrow> x)"
  shows "DEFAULT_LANGUAGE = JAVA \<and> DEFAULT_TEMPLATE = ATTACHED \<and> DEFAULT_METHOD = PREDICT
    \<and> check (req_language req) (req_template req) None =
        (if (l, t, DEFAULT_METHOD) \<in> set support_entries then Inr (DEFAULT_METHOD, l, t)
         else Inl (CapabilityError
                (if l \<notin> fst ` set SUPPORT then LanguageField else TemplateField)))
    \<and> ((l, t, DEFAULT_METHOD) \<in> set support_entries \<longrightarrow> (l, t, mth) \<notin> set support_entries \<longrightarrow>
          check (req_language req) (req_template req) (Some mth)
            = Inl (CapabilityError MethodField))
    \<and> ((l, t, DEFAULT_METHOD) \<notin> set support_entries \<longrightarrow>
          port env self req g =
            (Inl (CapabilityError
                (if l \<notin> fst ` set SUPPORT then LanguageField else TemplateField)), self, g))
    \<and> (fst (port env self req g) = Inr out \<longrightarrow>
          (l, t, DEFAULT_METHOD) \<in> set support_entries
          \<and> ((\<exists>cls doc. out = ClassAndData cls doc) \<longleftrightarrow> t = EXPORTED))
    \<and> (lt (language_KEY env l) = load_templates env (language_KEY env l) \<longrightarrow>
          port (env\<lparr>load_templates := lt\<rparr>) self req g = port env self req g)"
proof -
  have d: "DEFAULT_LANGUAGE = JAVA" "DEFAULT_TEMPLATE = ATTACHED" "DEFAULT_METHOD = PREDICT"
    by (simp_all add: DEFAULT_LANGUAGE_def DEFAULT_TEMPLATE_def DEFAULT_METHOD_def)
  have keys: "x \<in> fst ` set SUPPORT \<longleftrightarrow> x = JAVA \<or> x = JS" for x
    by (auto simp: SUPPORT_def)
  have c: "check (req_language req) (req_template req) None =
        (if (l, t, DEFAULT_METHOD) \<in> set support_entries then Inr (DEFAULT_METHOD, l, t)
         else Inl (CapabilityError
                (if l \<notin> fst ` set SUPPORT then LanguageField else TemplateField)))"
    unfolding assms d by (simp add: check_cases support_entries_iff keys Let_def)
  have cm: "check (req_language req) (req_template req) (Some mth)
            = Inl (CapabilityError MethodField)"
    if "(l, t, DEFAULT_METHOD) \<in> set support_entries" "(l, t, mth) \<notin> set support_entries"
    using that unfolding assms d by (auto simp: check_cases support_entries_iff Let_def)
  have p1: "(l, t, DEFAULT_METHOD) \<notin> set support_entries \<Longrightarrow>
          port env self req g =
            (Inl (CapabilityError
                (if l \<notin> fst ` set SUPPORT then LanguageField else TemplateField)), self, g)"
    by (simp add: port_cases c)
  have p2: "(l, t, DEFAULT_METHOD) \<in> set support_entries
          \<and> ((\<exists>cls doc. out = ClassAndData cls doc) \<longleftrightarrow> t = EXPORTED)"
    if "fst (port env self req g) = Inr out"
    using that by (auto simp: port_cases c split: if_splits sum.splits)
  have p3: "port (env\<lparr>load_templates := lt\<rparr>) self req g = port env self req g"
    if "lt (language_KEY env l) = load_templates env (language_KEY env l)"
    using that
    by (simp add: port_cases c dumps_load_templates request_placeholders_load_templates
        split: sum.splits)
  show ?thesis using d c cm p1 p2 p3 by blast
qed

theorem port_validates_request_witness:
  "port example_env example_adapter
      (example_request\<lparr>req_language := Some (OtherLanguage ''c'')\<rparr>) initial_globals
     = (Inl (CapabilityError LanguageField), example_adapter, initial_globals)
   \<and> check None None (Some (OtherMethod ''predict_proba'')) = Inl (CapabilityError MethodField)
   \<and> (JAVA, ATTACHED, PREDICT) \<in> set support_entries
   \<and> port (example_env\<lparr>load_templates := (\<lambda>key. if key = ''java'' then example_templates
                                                  else [''int'' \<mapsto> java_double])\<rparr>)
        example_adapter example_request initial_globals
     = port example_env example_adapter example_request initial_globals"
proof -
  have a: "(OtherLanguage ''c'', ATTACHED, PREDICT) \<notin> set support_entries"
    by (simp add: support_entries_iff)
  have b: "OtherLanguage ''c'' \<notin> fst ` set SUPPORT"
    by (auto simp: SUPPORT_def)
  have m: "(JAVA, ATTACHED, OtherMethod ''predict_proba'') \<notin> set support_entries"
    by (simp add: support_entries_iff)
  have e: "req_language example_request = None" "req_template example_request = None"
    by (simp_all add: example_request_def)
  have k: "language_KEY example_env JAVA = ''java''"
    "load_templates example_env ''java'' = example_templates"
    by (simp_all add: example_env_def)
  have o: "fst (port example_env example_adapter example_request initial_globals)
     = Inr (Source ''double[][] X = {{1.0f, 2.0f}, {3.0f, 4.0f}, {5.0f, 6.0f}}; int[] y = {0, 1, 7}; k=5 n=2 power=2'')"
    by (simp add: example_attached_output)
  have 1: "port example_env example_adapter
      (example_request\<lparr>req_language := Some (OtherLanguage ''c'')\<rparr>) initial_globals
     = (Inl (CapabilityError LanguageField), example_adapter, initial_globals)"
    using port_validates_request [where req = "example_request\<lparr>req_language := Some (OtherLanguage ''c'')\<rparr>"
        and l = "OtherLanguage ''c''" and t = ATTACHED and env = example_env
        and self = example_adapter and g = initial_globals] a b
    by (simp add: e DEFAULT_TEMPLATE_def DEFAULT_METHOD_def)
  have 2: "check None None (Some (OtherMethod ''predict_proba'')) = Inl (CapabilityError MethodField)
    \<and> (JAVA, ATTACHED, PREDICT) \<in> set support_entries
    \<and> port (example_env\<lparr>load_templates := (\<lambda>key. if key = ''java'' then example_templates
                                                  else [''int'' \<mapsto> java_double])\<rparr>)
        example_adapter example_request initial_globals
     = port example_env example_adapter example_request initial_globals"
    using port_validates_request [where req = example_request and l = JAVA and t = ATTACHED
        and env = example_env and self = example_adapter and g = initial_globals
        and mth = "OtherMethod ''predict_proba''"
        and lt = "\<lambda>key. if key = ''java'' then example_templates else [''int'' \<mapsto> java_double]"
        and out = "Source ''double[][] X = {{1.0f, 2.0f}, {3.0f, 4.0f}, {5.0f, 6.0f}}; int[] y = {0, 1, 7}; k=5 n=2 power=2''"]
      m o
    by (simp add: e k DEFAULT_TEMPLATE_def DEFAULT_LANGUAGE_def DEFAULT_METHOD_def)
  show ?thesis using 1 2 by simp
qed

section \<open>Porting twice\<close>

text \<open>
  C5. The output of \<open>port\<close> (the text, the pair, or the error) does not depend on the
  global variables the call starts from; so a second call with the same adapter, the
  same request and the same converter, made after the first one, returns the same
  output as the first.
\<close>

theorem port_deterministic:
  "fst (port env self req g1) = fst (port env self req g2)
   \<and> fst (port env (fst (snd (port env self req g))) req (snd (snd (port env self req g))))
       = fst (port env self req g)"
  by (simp add: port_cases dumps_def model_data_json_def split: sum.splits prod.splits)

theorem port_deterministic_witness:
  "fst (port example_env example_adapter (example_request\<lparr>req_template := Some EXPORTED\<rparr>)
        initial_globals)
    = fst (port example_env example_adapter (example_request\<lparr>req_template := Some EXPORTED\<rparr>)
        \<lparr>FLOAT_REPR = Hook (Some constant_converter)\<rparr>)"
  using port_deterministic [where env = example_env and self = example_adapter
      and req = "example_request\<lparr>req_template := Some EXPORTED\<rparr>" and ?g1.0 = initial_globals
      and ?g2.0 = "\<lparr>FLOAT_REPR = Hook (Some constant_converter)\<rparr>"]
  by simp

section \<open>What a port call changes\<close>

text \<open>
  C9, as the claim states it, fails: a call in Exported mode assigns the global variable
  \<open>encoder.FLOAT_REPR\<close> of the module \<open>json\<close> and leaves it assigned.
\<close>

theorem port_exported_assigns_global:
  "snd (snd (port example_env example_adapter (example_request\<lparr>req_template := Some EXPORTED\<rparr>)
     initial_globals)) \<noteq> initial_globals"
  by (simp only: example_exported_output snd_conv) (simp add: initial_globals_def)

text \<open>
  C9, amended. Every port call leaves the adapter (its estimator, placeholders, meta
  information and model data) as it was. A call whose request does not ask for the
  Exported mode leaves the global variables as they were. A call that asks for the
  Exported mode changes at most \<open>encoder.FLOAT_REPR\<close>, which it sets to the function that
  calls the converter of the request, and when such a call returns an output it has
  made that assignment.
\<close>

theorem port_frame:
  "fst (snd (port env self req g)) = self
   \<and> (req_template req \<noteq> Some EXPORTED \<longrightarrow> snd (snd (port env self req g)) = g)
   \<and> (snd (snd (port env self req g)) = g
        \<or> snd (snd (port env self req g)) = g\<lparr>FLOAT_REPR := Hook (kw_converter req)\<rparr>)
   \<and> (req_template req = Some EXPORTED \<longrightarrow> fst (port env self req g) = Inr r \<longrightarrow>
        snd (snd (port env self req g)) = g\<lparr>FLOAT_REPR := Hook (kw_converter req)\<rparr>)"
  by (auto simp: port_cases check_cases Let_def split: sum.splits prod.splits option.splits if_splits)

theorem port_frame_witness:
  "req_template example_request \<noteq> Some EXPORTED
   \<and> snd (snd (port example_env example_adapter example_request initial_globals)) = initial_globals
   \<and> fst (snd (port example_env example_adapter example_request initial_globals)) = example_adapter
   \<and> req_template (example_request\<lparr>req_template := Some EXPORTED\<rparr>) = Some EXPORTED
   \<and> snd (snd (port example_env example_adapter
        (example_request\<lparr>req_template := Some EXPORTED\<rparr>) initial_globals))
      = initial_globals\<lparr>FLOAT_REPR := Hook (Some example_converter)\<rparr>"
proof -
  have 1: "req_template example_request \<noteq> Some EXPORTED"
    by (simp add: example_request_def)
  have 2: "snd (snd (port example_env example_adapter example_request initial_globals))
      = initial_globals
    \<and> fst (snd (port example_env example_adapter example_request initial_globals))
      = example_adapter"
    using port_frame [where env = example_env and self = example_adapter
        and req = example_request and g = initial_globals] 1
    by simp
  have 3: "fst (port example_env example_adapter
        (example_request\<lparr>req_template := Some EXPORTED\<rparr>) initial_globals)
      = Inr (ClassAndData ''class KNN''
       (''{'' @ [CHR 0x22] @ ''X'' @ [CHR 0x22] @ '':[[1.0,2.0],[3.0,4.0],[5.0,6.0]],'' @ [CHR 0x22] @ ''y'' @ [CHR 0x22] @ '':[0,1,7],''
         @ [CHR 0x22] @ ''k'' @ [CHR 0x22] @ '':5,'' @ [CHR 0x22] @ ''n'' @ [CHR 0x22] @ '':2,'' @ [CHR 0x22] @ ''power'' @ [CHR 0x22] @ '':2}''))"
    by (simp only: example_exported_output fst_conv)
  have 4: "snd (snd (port example_env example_adapter
        (example_request\<lparr>req_template := Some EXPORTED\<rparr>) initial_globals))
      = initial_globals\<lparr>FLOAT_REPR := Hook (Some example_converter)\<rparr>"
    using port_frame [where env = example_env and self = example_adapter
        and req = "example_request\<lparr>req_template := Some EXPORTED\<rparr>" and g = initial_globals
        and r = "ClassAndData ''class KNN''
       (''{'' @ [CHR 0x22] @ ''X'' @ [CHR 0x22] @ '':[[1.0,2.0],[3.0,4.0],[5.0,6.0]],'' @ [CHR 0x22] @ ''y'' @ [CHR 0x22] @ '':[0,1,7],''
         @ [CHR 0x22] @ ''k'' @ [CHR 0x22] @ '':5,'' @ [CHR 0x22] @ ''n'' @ [CHR 0x22] @ '':2,'' @ [CHR 0x22] @ ''power'' @ [CHR 0x22] @ '':2}'')"] 3
    by (simp add: example_request_def)
  show ?thesis using 1 2 4 by simp
qed

section \<open>The attached class\<close>

text \<open>
  C7. In Attached mode, with a converter and the templates of the language at hand, the
  output is the attached class template rendered on a mapping whose entry \<open>X\<close> is the
  matrix literal (each row converted value by value, joined with a comma and a space,
  wrapped by the bracket template; the wrapped rows joined and rendered by the
  two-dimensional array template with the number of rows and the number of columns of
  the first row) and whose entry \<open>y\<close> is the label vector rendered by the
  one-dimensional array template with the number of labels.
\<close>

theorem attached_literals_rendered:
  assumes "check (req_language req) (req_template req) None = Inr (m, l, ATTACHED)"
    and "kw_converter req = Some c"
    and "md_X (model_data self) = row # rows"
    and "load_templates env (language_KEY env l) = tpls"
    and "tpls ''int'' = Some t_int" "tpls ''double'' = Some t_double"
    and "tpls ''arr[]'' = Some t_arr_1" "tpls ''arr[][]'' = Some t_arr_2"
    and "tpls ''in_brackets'' = Some t_in_brackets" "tpls ''attached.class'' = Some t_class"
  shows "\<exists>d. fst (port env self req g) = Inr (Source (t_class d))
    \<and> d ''X'' = Some (PStr (matrix_literal t_in_brackets t_arr_2 (t_double Map.empty)
                         (map (map c) (row # rows)) (length row)))
    \<and> d ''y'' = Some (PStr (vector_literal t_arr_1 (t_int Map.empty)
                         (map str_int (md_y (model_data self)))))"
proof -
  let ?d = "request_placeholders env self m req ++
      [''X'' \<mapsto> PStr (matrix_literal t_in_brackets t_arr_2 (t_double Map.empty)
                         (map (map c) (md_X (model_data self))) (length row)),
       ''y'' \<mapsto> PStr (vector_literal t_arr_1 (t_int Map.empty)
                         (map str_int (md_y (model_data self)))),
       ''k'' \<mapsto> PInt (md_k (model_data self)), ''n'' \<mapsto> PInt (md_n (model_data self)),
       ''power'' \<mapsto> PInt (md_power (model_data self))]"
  have a: "fst (port env self req g) = Inr (Source (t_class ?d))"
    by (simp add: port_attached_Some [OF assms])
  have b: "?d ''X'' = Some (PStr (matrix_literal t_in_brackets t_arr_2
      (t_double Map.empty) (map (map c) (row # rows)) (length row)))"
    by (simp add: assms(3))
  have c: "?d ''y'' = Some (PStr (vector_literal t_arr_1 (t_int Map.empty)
      (map str_int (md_y (model_data self)))))"
    by simp
  show ?thesis
    by (rule exI [of _ ?d]) (intro conjI a b c)
qed

theorem attached_literals_rendered_witness:
  "check (req_language example_request) (req_template example_request) None
      = Inr (PREDICT, JAVA, ATTACHED)
   \<and> kw_converter example_request = Some example_converter
   \<and> md_X (model_data example_adapter) = [1, 2] # [[3, 4], [5, 6]]
   \<and> (\<exists>d. fst (port example_env example_adapter example_request initial_globals)
            = Inr (Source (java_attached_class d))
        \<and> d ''X'' = Some (PStr (matrix_literal java_in_brackets java_arr_2 (java_double Map.empty)
              (map (map example_converter) ([1, 2] # [[3, 4], [5, 6]])) (length [1, 2 :: int])))
        \<and> d ''y'' = Some (PStr (vector_literal java_arr_1 (java_int Map.empty)
              (map str_int (md_y (model_data example_adapter))))))"
proof -
  have 1: "check (req_language example_request) (req_template example_request) None
      = Inr (PREDICT, JAVA, ATTACHED)"
    by (simp add: check_cases example_request_def)
  have 2: "kw_converter example_request = Some example_converter"
    by (simp add: example_request_def)
  have 3: "md_X (model_data example_adapter) = [1, 2] # [[3, 4], [5, 6]]"
    by (simp add: example_adapter_def)
  have 4: "load_templates example_env (language_KEY example_env JAVA) = example_templates"
    by (simp add: example_env_def)
  show ?thesis
    using attached_literals_rendered [OF 1 2 3 4 example_templates_lookup(1-6),
        where g = initial_globals] 1 2 3
    by simp
qed

text \<open>
  C10. In Attached mode, when the request carries no converter, the generic templates of
  the language are at hand and the adapter was built from an estimator with at least
  one feature, \<open>port\<close> stops with \<open>TypeError\<close>, which is none of the four declared error
  kinds, and leaves the adapter and the global variables as they were.
\<close>

theorem port_without_converter:
  assumes "check (req_language req) (req_template req) None = Inr (m, l, ATTACHED)"
    and "kw_converter req = None"
    and "init env est = Inr self"
    and "0 < n_features (meta_info self)"
    and "load_templates env (language_KEY env l) = tpls"
    and "tpls ''int'' = Some t_int" "tpls ''double'' = Some t_double"
    and "tpls ''arr[]'' = Some t_arr_1" "tpls ''arr[][]'' = Some t_arr_2"
    and "tpls ''in_brackets'' = Some t_in_brackets"
  shows "port env self req g = (Inl TypeError, self, g) \<and> \<not> declared_error TypeError"
proof -
  obtain row rows where x: "md_X (model_data self) = row # rows"
    and f: "n_features (meta_info self) = int (length row)"
    using init_Inr [OF assms(3)] by blast
  from f assms(4) have "row \<noteq> []" by auto
  then have "attached_class None (model_data self) (request_placeholders env self m req) tpls
      = Inl TypeError"
    using attached_class_None [OF assms(6-10) x] by simp
  then show ?thesis
    using assms(1,2,5) by (simp add: port_cases)
qed

theorem port_without_converter_witness:
  "check (req_language (example_request\<lparr>kw_converter := None\<rparr>))
        (req_template (example_request\<lparr>kw_converter := None\<rparr>)) None
      = Inr (PREDICT, JAVA, ATTACHED)
   \<and> kw_converter (example_request\<lparr>kw_converter := None\<rparr>) = None
   \<and> init example_env example_estimator = Inr example_adapter
   \<and> 0 < n_features (meta_info example_adapter)
   \<and> port example_env example_adapter (example_request\<lparr>kw_converter := None\<rparr>) initial_globals
      = (Inl TypeError, example_adapter, initial_globals)"
proof -
  have 1: "check (req_language (example_request\<lparr>kw_converter := None\<rparr>))
        (req_template (example_request\<lparr>kw_converter := None\<rparr>)) None
      = Inr (PREDICT, JAVA, ATTACHED)"
    by (simp add: check_cases example_request_def)
  have 2: "kw_converter (example_request\<lparr>kw_converter := None\<rparr>) = None"
    by simp
  have 3: "0 < n_features (meta_info example_adapter)"
    by (simp add: example_adapter_def)
  have 4: "load_templates example_env (language_KEY example_env JAVA) = example_templates"
    by (simp add: example_env_def)
  show ?thesis
    using port_without_converter [OF 1 2 init_example 3 4 example_templates_lookup(1-5),
        where g = initial_globals] 1 2 3 init_example
    by simp
qed

section \<open>How numbers are formatted\<close>




section \<open>The two modes and the converter\<close>

text \<open>
  C4. The claim asks that the Attached output and the Exported data document hold the
  same numbers for a given converter. Line 140 assigns the converter to
  \<open>encoder.FLOAT_REPR\<close> for this purpose, but \<open>json.dumps\<close> does not read that variable:
  the document holds the floats as \<open>float.__repr__\<close> writes them. With a converter that
  rounds down to an even number, the attached class holds \<open>0.0f, 2.0f, 2.0f, 4.0f, 4.0f,
  6.0f\<close> where the data document of the same estimator holds \<open>1.0, 2.0, 3.0, 4.0, 5.0,
  6.0\<close>; the labels and \<open>k\<close>, \<open>n\<close>, \<open>power\<close> agree.
\<close>

theorem exported_floats_bypass_converter:
  "fst (port example_env example_adapter
        (example_request\<lparr>kw_converter := Some lossy_converter\<rparr>) initial_globals)
     = Inr (Source ''double[][] X = {{0.0f, 2.0f}, {2.0f, 4.0f}, {4.0f, 6.0f}}; int[] y = {0, 1, 7}; k=5 n=2 power=2'')
   \<and> fst (port example_env example_adapter
        (example_request\<lparr>kw_converter := Some lossy_converter, req_template := Some EXPORTED\<rparr>)
        initial_globals)
     = Inr (ClassAndData ''class KNN''
       (''{'' @ [CHR 0x22] @ ''X'' @ [CHR 0x22] @ '':[[1.0,2.0],[3.0,4.0],[5.0,6.0]],'' @ [CHR 0x22] @ ''y'' @ [CHR 0x22] @ '':[0,1,7],''
         @ [CHR 0x22] @ ''k'' @ [CHR 0x22] @ '':5,'' @ [CHR 0x22] @ ''n'' @ [CHR 0x22] @ '':2,'' @ [CHR 0x22] @ ''power'' @ [CHR 0x22] @ '':2}''))"
  by (simp only: lossy_attached_output lossy_exported_output fst_conv simp_thms)

end
